theory Spec2Isabelle
  imports Main
begin

section \<open>Python values, strings and exceptions\<close>

text \<open>
  A Python \<open>str\<close> is a sequence of Unicode code points, so it is modelled as a list of
  natural numbers (each below \<open>0x110000\<close> in a real string). Identifiers of the program
  (bus names, member names, type names) and ASCII literals are written as HOL strings
  and injected with \<open>ascii\<close>; a character of a HOL string above \<open>0x7F\<close> stands for
  the code point of the same number.
\<close>

type_synonym pystr = "nat list"

definition ascii :: "string \<Rightarrow> pystr" where
  "ascii s = map of_char s"

text \<open>
  The arguments of the public methods are arbitrary Python objects. The model keeps the
  kinds that \<open>json.dumps\<close> tells apart without number formatting: \<open>None\<close>, booleans,
  strings, lists, dictionaries (as association lists in insertion order), and
  \<open>VObject t\<close> for an object of any other type named \<open>t\<close> (bytes, set, a user class),
  which the encoder rejects. Numbers are left out: their text comes from
  \<open>int.__repr__\<close> and \<open>float.__repr__\<close>.
\<close>

datatype pyval =
    VNone
  | VBool bool
  | VStr pystr
  | VList "pyval list"
  | VDict "(pyval \<times> pyval) list"
  | VObject string

text \<open>
  Exceptions carry their class and their message. \<open>KeyboardInterrupt\<close> and
  \<open>SystemExit\<close> derive from \<open>BaseException\<close> only, so \<open>except Exception\<close> lets
  them through; the other classes derive from \<open>Exception\<close>. \<open>UnicodeEncodeError\<close>,
  \<open>ValueError\<close> and \<open>OSError\<close> are what \<open>print\<close> raises when standard output cannot
  encode the text, is closed, or is broken.
\<close>

datatype exn_class =
    TypeError
  | AttributeError
  | GLibError
  | UnicodeEncodeError
  | ValueError
  | OSError
  | KeyboardInterrupt
  | SystemExit

datatype exn = Exn (cls: exn_class) (msg: pystr)

fun isinstance_Exception :: "exn \<Rightarrow> bool" where
  "isinstance_Exception (Exn KeyboardInterrupt m) = False"
| "isinstance_Exception (Exn SystemExit m) = False"
| "isinstance_Exception (Exn c m) = True"

text \<open>\<open>str(e)\<close> inside the f-strings of the handlers.\<close>

definition str_exn :: "exn \<Rightarrow> pystr" where
  "str_exn e = msg e"

fun class_name :: "pyval \<Rightarrow> string" where
  "class_name VNone = ''NoneType''"
| "class_name (VBool b) = ''bool''"
| "class_name (VStr s) = ''str''"
| "class_name (VList xs) = ''list''"
| "class_name (VDict kvs) = ''dict''"
| "class_name (VObject t) = t"

section \<open>\<open>json.dumps\<close> with its default arguments\<close>

text \<open>
  \<open>json.dumps(obj)\<close> runs the encoder with \<open>ensure_ascii=True\<close>, \<open>skipkeys=False\<close>
  and the separators \<open>', '\<close> and \<open>': '\<close>. A string is written between double
  quotes; every character outside \<open>' '..'~'\<close>, and the quote and the backslash, is
  replaced: by its short escape, or by \<open>\uXXXX\<close> in lower-case hexadecimal, with a
  surrogate pair above \<open>0xFFFF\<close>.
\<close>

definition hexdigit :: "nat \<Rightarrow> nat" where
  "hexdigit d = (if d < 10 then 48 + d else 87 + d)"

text \<open>\<open>'{0:04x}'.format(n)\<close> for \<open>n < 0x10000\<close>.\<close>

definition hex4 :: "nat \<Rightarrow> pystr" where
  "hex4 n = [hexdigit (n div 4096 mod 16), hexdigit (n div 256 mod 16),
             hexdigit (n div 16 mod 16), hexdigit (n mod 16)]"

text \<open>
  The replacement function of \<open>py_encode_basestring_ascii\<close>. The source computes the
  surrogates as \<open>0xd800 | ((n >> 10) & 0x3ff)\<close> and \<open>0xdc00 | (n & 0x3ff)\<close>; the
  operands of each \<open>|\<close> have no bit in common, so it is an addition.
\<close>

definition replace :: "nat \<Rightarrow> pystr" where
  "replace c =
     (if c = 0x5C then [0x5C, 0x5C]
      else if c = 0x22 then [0x5C, 0x22]
      else if c = 0x08 then [0x5C, 0x62]
      else if c = 0x0C then [0x5C, 0x66]
      else if c = 0x0A then [0x5C, 0x6E]
      else if c = 0x0D then [0x5C, 0x72]
      else if c = 0x09 then [0x5C, 0x74]
      else if c < 0x10000 then [0x5C, 0x75] @ hex4 c
      else (let n = c - 0x10000;
                s1 = 0xD800 + (n div 1024) mod 1024;
                s2 = 0xDC00 + n mod 1024
            in [0x5C, 0x75] @ hex4 s1 @ [0x5C, 0x75] @ hex4 s2))"

definition escape_ascii :: "nat \<Rightarrow> pystr" where
  "escape_ascii c =
     (if 0x20 \<le> c \<and> c \<le> 0x7E \<and> c \<noteq> 0x22 \<and> c \<noteq> 0x5C then [c] else replace c)"

definition encode_basestring_ascii :: "pystr \<Rightarrow> pystr" where
  "encode_basestring_ascii s = [0x22] @ concat (map escape_ascii s) @ [0x22]"

text \<open>\<open>sep.join(xs)\<close>.\<close>

fun join :: "pystr \<Rightarrow> pystr list \<Rightarrow> pystr" where
  "join sep [] = []"
| "join sep [x] = x"
| "join sep (x # y # ys) = x @ sep @ join sep (y # ys)"

text \<open>
  A dictionary key must be a string, a number, a boolean or \<open>None\<close>; anything else
  raises \<open>TypeError\<close> since \<open>skipkeys\<close> is false.
\<close>

fun key_str :: "pyval \<Rightarrow> exn + pystr" where
  "key_str (VStr s) = Inr s"
| "key_str (VBool b) = Inr (ascii (if b then ''true'' else ''false''))"
| "key_str VNone = Inr (ascii ''null'')"
| "key_str k = Inl (Exn TypeError
     (ascii (''keys must be str, int, float, bool or None, not '' @ class_name k)))"

text \<open>
  The encoder proper. Items are encoded in order and the first failure is the exception
  raised; in a dictionary the key of an item is checked before its value is encoded.
\<close>

fun iterencode :: "pyval \<Rightarrow> exn + pystr"
  and iterencode_list :: "pyval list \<Rightarrow> exn + pystr list"
  and iterencode_dict :: "(pyval \<times> pyval) list \<Rightarrow> exn + pystr list" where
  "iterencode VNone = Inr (ascii ''null'')"
| "iterencode (VBool b) = Inr (ascii (if b then ''true'' else ''false''))"
| "iterencode (VStr s) = Inr (encode_basestring_ascii s)"
| "iterencode (VList xs) =
     (case iterencode_list xs of
        Inl e \<Rightarrow> Inl e
      | Inr ys \<Rightarrow> Inr ([0x5B] @ join (ascii '', '') ys @ [0x5D]))"
| "iterencode (VDict kvs) =
     (case iterencode_dict kvs of
        Inl e \<Rightarrow> Inl e
      | Inr ys \<Rightarrow> Inr ([0x7B] @ join (ascii '', '') ys @ [0x7D]))"
| "iterencode (VObject t) =
     Inl (Exn TypeError (ascii (''Object of type '' @ t @ '' is not JSON serializable'')))"
| "iterencode_list [] = Inr []"
| "iterencode_list (x # xs) =
     (case iterencode x of
        Inl e \<Rightarrow> Inl e
      | Inr y \<Rightarrow> (case iterencode_list xs of Inl e \<Rightarrow> Inl e | Inr ys \<Rightarrow> Inr (y # ys)))"
| "iterencode_dict [] = Inr []"
| "iterencode_dict ((k, v) # kvs) =
     (case key_str k of
        Inl e \<Rightarrow> Inl e
      | Inr ks \<Rightarrow>
         (case iterencode v of
            Inl e \<Rightarrow> Inl e
          | Inr y \<Rightarrow>
             (case iterencode_dict kvs of
                Inl e \<Rightarrow> Inl e
              | Inr ys \<Rightarrow> Inr ((encode_basestring_ascii ks @ ascii '': '' @ y) # ys))))"

definition json_dumps :: "pyval \<Rightarrow> exn + pystr" where
  "json_dumps obj = iterencode obj"

section \<open>The D-Bus boundary and standard output\<close>

text \<open>
  The bus, the two services and \<open>pydbus\<close> are outside the repository. Every operation
  of the model takes the behaviour of its surroundings at that moment as a parameter,
  so a theorem quantified over it covers whatever the services do, call after call.
  \<open>SystemBus\<close> says whether the system bus can be opened, \<open>bus_get name\<close> whether the
  named service can be resolved and which members its object exposes, and
  \<open>method_call name member arg\<close> is the answer to a method call: a return value, or the
  error that \<open>pydbus\<close> raises as \<open>GLib.Error\<close> (service gone, call rejected,
  connection dropped, timeout). \<open>Error m\<close> carries the text \<open>m\<close> that \<open>str\<close> gives
  for the error.
\<close>

datatype 'a reply = Reply 'a | Error pystr

record dbus =
  SystemBus :: "unit reply"
  bus_get :: "string \<Rightarrow> string list reply"
  method_call :: "string \<Rightarrow> string \<Rightarrow> pystr \<Rightarrow> pyval reply"

text \<open>
  The surroundings of the process are the bus and standard output. \<open>write_stdout line\<close>
  is what \<open>print(line)\<close> does: \<open>None\<close> when the line is written, or the exception
  that \<open>print\<close> raises (\<open>UnicodeEncodeError\<close> when the encoding of standard output has
  no code for a character of the line, \<open>ValueError\<close> on a closed stream, \<open>OSError\<close> on
  a broken one). Signals are not modelled, so nothing raises \<open>KeyboardInterrupt\<close> in
  the middle of a call.
\<close>

record world = dbus +
  write_stdout :: "pystr \<Rightarrow> exn option"

text \<open>The handle returned by \<open>bus.get\<close>: the bus name and the members found by introspection.\<close>

record proxy =
  service :: string
  members :: "string list"

text \<open>
  What running a piece of the program yields: the value returned or the exception
  raised, the remote operations invoked (bus name, member, argument) and the lines
  printed, both in order.
\<close>

type_synonym call = "string \<times> string \<times> pystr"

record 'a outcome =
  result :: "exn + 'a"
  calls :: "call list"
  stdout :: "pystr list"

definition returns :: "'a \<Rightarrow> 'a outcome" where
  "returns v = \<lparr>result = Inr v, calls = [], stdout = []\<rparr>"

definition raises :: "exn \<Rightarrow> 'a outcome" where
  "raises e = \<lparr>result = Inl e, calls = [], stdout = []\<rparr>"

text \<open>
  \<open>print(line)\<close> followed by \<open>return v\<close>, as in every handler of the program: when
  \<open>print\<close> raises, nothing is written and the \<open>return\<close> is not reached.
\<close>

definition print_return :: "world \<Rightarrow> pystr \<Rightarrow> 'a \<Rightarrow> 'a outcome" where
  "print_return env line v =
     (case write_stdout env line of
        None \<Rightarrow> \<lparr>result = Inr v, calls = [], stdout = [line]\<rparr>
      | Some e \<Rightarrow> \<lparr>result = Inl e, calls = [], stdout = []\<rparr>)"

text \<open>
  \<open>try: body  except Exception as e: handler\<close>. The effects of the body up to the raise
  stay; an exception that is not an \<open>Exception\<close> passes through, and so does whatever
  the handler itself raises.
\<close>

definition try_except_Exception :: "'a outcome \<Rightarrow> (exn \<Rightarrow> 'a outcome) \<Rightarrow> 'a outcome" where
  "try_except_Exception body handler =
     (case result body of
        Inr v \<Rightarrow> body
      | Inl e \<Rightarrow>
          if isinstance_Exception e
          then (let h = handler e
                in \<lparr>result = result h, calls = calls body @ calls h,
                    stdout = stdout body @ stdout h\<rparr>)
          else body)"

text \<open>
  Calling \<open>member\<close> on a proxy: a member the proxy does not have is an
  \<open>AttributeError\<close> and nothing is sent; otherwise the method call is sent once and its
  answer returned or raised.
\<close>

definition proxy_call :: "world \<Rightarrow> proxy \<Rightarrow> string \<Rightarrow> pystr \<Rightarrow> pyval outcome" where
  "proxy_call env p member arg =
     (if member \<in> set (members p)
      then \<lparr>result = (case method_call env (service p) member arg of
                         Reply v \<Rightarrow> Inr v
                       | Error m \<Rightarrow> Inl (Exn GLibError m)),
            calls = [(service p, member, arg)], stdout = []\<rparr>
      else raises (Exn AttributeError
             ([0x27] @ ascii ''<CompositeObject>' object has no attribute ''
                @ [0x27] @ ascii member @ [0x27])))"

section \<open>\<open>edgeberry.py\<close>: the class \<open>Edgeberry\<close>\<close>

definition EDGEBERRY_SERVICE :: string where
  "EDGEBERRY_SERVICE = ''io.edgeberry.Core''"

text \<open>
  An instance has the attributes its constructor managed to set: \<open>None\<close> stands for an
  attribute that was never assigned, whose read raises \<open>AttributeError\<close>.
\<close>

record Edgeberry =
  bus :: "unit option"
  edgeberry_core_service :: "proxy option"

text \<open>
  The \<open>try\<close> block of \<open>__init__\<close>, from the fresh instance: the instance as the block
  leaves it, and the exception it raised, if any.
\<close>

definition Edgeberry_init_try :: "world \<Rightarrow> Edgeberry \<Rightarrow> Edgeberry \<times> exn option" where
  "Edgeberry_init_try env self =
     (case SystemBus env of
        Error m \<Rightarrow> (self, Some (Exn GLibError m))
      | Reply u \<Rightarrow>
          (let self1 = self\<lparr>bus := Some ()\<rparr>
           in case bus_get env EDGEBERRY_SERVICE of
                Error m \<Rightarrow> (self1, Some (Exn GLibError m))
              | Reply ms \<Rightarrow>
                  (self1\<lparr>edgeberry_core_service :=
                            Some \<lparr>service = EDGEBERRY_SERVICE, members = ms\<rparr>\<rparr>, None)))"

text \<open>
  \<open>Edgeberry()\<close>: the handler prints the error and returns from \<open>__init__\<close>, so the
  caller gets the instance as the \<open>try\<close> block left it, unless \<open>print\<close> raises.
\<close>

definition Edgeberry_init :: "world \<Rightarrow> Edgeberry outcome" where
  "Edgeberry_init env =
     (case Edgeberry_init_try env \<lparr>bus = None, edgeberry_core_service = None\<rparr> of
        (self, None) \<Rightarrow> returns self
      | (self, Some e) \<Rightarrow>
          if isinstance_Exception e
          then print_return env
                 (ascii ''Edgeberry: error connecting to Edgeberry D-Bus: '' @ str_exn e) self
          else raises e)"

text \<open>The \<open>try\<close> block of \<open>set_application_info\<close>.\<close>

definition set_application_info_try ::
  "Edgeberry \<Rightarrow> world \<Rightarrow> pyval \<Rightarrow> pyval \<Rightarrow> pyval \<Rightarrow> pyval outcome" where
  "set_application_info_try self env name version description =
     (let application_info = VDict [(VStr (ascii ''name''), name),
                                    (VStr (ascii ''version''), version),
                                    (VStr (ascii ''description''), description)]
      in case json_dumps application_info of
           Inl e \<Rightarrow> raises e
         | Inr application_info_json \<Rightarrow>
             (case edgeberry_core_service self of
                None \<Rightarrow> raises (Exn AttributeError
                  ([0x27] @ ascii ''Edgeberry' object has no attribute ''
                     @ [0x27] @ ascii ''edgeberry_core_service'' @ [0x27]))
              | Some p \<Rightarrow> proxy_call env p ''SetApplicationInfo'' application_info_json))"

definition set_application_info ::
  "Edgeberry \<Rightarrow> world \<Rightarrow> pyval \<Rightarrow> pyval \<Rightarrow> pyval \<Rightarrow> pyval outcome" where
  "set_application_info self env name version description =
     try_except_Exception (set_application_info_try self env name version description)
       (\<lambda>e. print_return env (ascii ''Edgeberry: error setting status: '' @ str_exn e) VNone)"

text \<open>The \<open>try\<close> block of \<open>set_status\<close>.\<close>

definition set_status_try :: "Edgeberry \<Rightarrow> world \<Rightarrow> pyval \<Rightarrow> pyval \<Rightarrow> pyval outcome" where
  "set_status_try self env level message =
     (let status = VDict [(VStr (ascii ''level''), level),
                          (VStr (ascii ''message''), message)]
      in case json_dumps status of
           Inl e \<Rightarrow> raises e
         | Inr status_json \<Rightarrow>
             (case edgeberry_core_service self of
                None \<Rightarrow> raises (Exn AttributeError
                  ([0x27] @ ascii ''Edgeberry' object has no attribute ''
                     @ [0x27] @ ascii ''edgeberry_core_service'' @ [0x27]))
              | Some p \<Rightarrow> proxy_call env p ''SetApplicationStatus'' status_json))"

definition set_status :: "Edgeberry \<Rightarrow> world \<Rightarrow> pyval \<Rightarrow> pyval \<Rightarrow> pyval outcome" where
  "set_status self env level message =
     try_except_Exception (set_status_try self env level message)
       (\<lambda>e. print_return env (ascii ''Edgeberry: error setting status: '' @ str_exn e) VNone)"

section \<open>\<open>edgeberry_cloudconnect.py\<close>: the class \<open>EdgeberryCloudConnect\<close>\<close>

text \<open>The module's own \<open>EDGEBERRY_SERVICE\<close>.\<close>

definition EDGEBERRY_SERVICE_cloudconnect :: string where
  "EDGEBERRY_SERVICE_cloudconnect = ''io.edgeberry.CloudConnect''"

record EdgeberryCloudConnect =
  bus :: "unit option"
  edgeberry_cloudconnect_service :: "proxy option"

definition EdgeberryCloudConnect_init_try ::
  "world \<Rightarrow> EdgeberryCloudConnect \<Rightarrow> EdgeberryCloudConnect \<times> exn option" where
  "EdgeberryCloudConnect_init_try env self =
     (case SystemBus env of
        Error m \<Rightarrow> (self, Some (Exn GLibError m))
      | Reply u \<Rightarrow>
          (let self1 = self\<lparr>EdgeberryCloudConnect.bus := Some ()\<rparr>
           in case bus_get env EDGEBERRY_SERVICE_cloudconnect of
                Error m \<Rightarrow> (self1, Some (Exn GLibError m))
              | Reply ms \<Rightarrow>
                  (self1\<lparr>edgeberry_cloudconnect_service :=
                            Some \<lparr>service = EDGEBERRY_SERVICE_cloudconnect, members = ms\<rparr>\<rparr>,
                   None)))"

definition EdgeberryCloudConnect_init :: "world \<Rightarrow> EdgeberryCloudConnect outcome" where
  "EdgeberryCloudConnect_init env =
     (case EdgeberryCloudConnect_init_try env
             \<lparr>EdgeberryCloudConnect.bus = None, edgeberry_cloudconnect_service = None\<rparr> of
        (self, None) \<Rightarrow> returns self
      | (self, Some e) \<Rightarrow>
          if isinstance_Exception e
          then print_return env
                 (ascii ''CloudConnect: error connecting to Edgeberry Cloud Connect D-Bus API: ''
                    @ str_exn e) self
          else raises e)"

text \<open>The \<open>try\<close> block of \<open>send_message\<close>.\<close>

definition send_message_try :: "EdgeberryCloudConnect \<Rightarrow> world \<Rightarrow> pyval \<Rightarrow> pyval outcome" where
  "send_message_try self env message =
     (let messaged = VDict [(VStr (ascii ''message''), message)]
      in case json_dumps messaged of
           Inl e \<Rightarrow> raises e
         | Inr messaged_json \<Rightarrow>
             (case edgeberry_cloudconnect_service self of
                None \<Rightarrow> raises (Exn AttributeError
                  ([0x27] @ ascii ''EdgeberryCloudConnect' object has no attribute ''
                     @ [0x27] @ ascii ''edgeberry_cloudconnect_service'' @ [0x27]))
              | Some p \<Rightarrow> proxy_call env p ''SendMessage'' messaged_json))"

definition send_message :: "EdgeberryCloudConnect \<Rightarrow> world \<Rightarrow> pyval \<Rightarrow> pyval outcome" where
  "send_message self env message =
     try_except_Exception (send_message_try self env message)
       (\<lambda>e. print_return env (ascii ''CloudConnect: error sending message: '' @ str_exn e)
              VNone)"

section \<open>A reference decoder for the texts sent\<close>

text \<open>
  Modelled from the spec: the JSON-compatible parser of the round-trip property. The
  services that read the argument are not among the sources, so the theory carries a
  decoder for the texts the three methods send when their arguments are strings: one
  object whose members are strings. It follows the
  grammar of RFC 8259 and, where the RFC leaves a choice, \<open>json.loads\<close>. Whitespace is
  space, tab, line feed and carriage return. A string ends at the first quote that is
  not escaped, holds no raw control character, and knows the escapes for the quote, the
  backslash, the slash, \<open>b f n r t\<close> and \<open>uXXXX\<close> with hexadecimal digits of either
  case; the escape of a high surrogate followed by the escape of a low surrogate is one
  code point. The result lists the members in the order of the text; anything after the
  object but whitespace is an error.
\<close>

definition unhex :: "nat \<Rightarrow> nat option" where
  "unhex c =
     (if 0x30 \<le> c \<and> c \<le> 0x39 then Some (c - 0x30)
      else if 0x61 \<le> c \<and> c \<le> 0x66 then Some (c - 0x57)
      else if 0x41 \<le> c \<and> c \<le> 0x46 then Some (c - 0x37)
      else None)"

text \<open>The four hexadecimal digits after \<open>\u\<close>.\<close>

fun decode_uXXXX :: "pystr \<Rightarrow> nat option" where
  "decode_uXXXX [a, b, c, d] =
     (case (unhex a, unhex b, unhex c, unhex d) of
        (Some x, Some y, Some z, Some w) \<Rightarrow> Some (((x * 16 + y) * 16 + z) * 16 + w)
      | _ \<Rightarrow> None)"
| "decode_uXXXX s = None"

definition unescape :: "nat \<Rightarrow> nat option" where
  "unescape e =
     (if e = 0x22 then Some 0x22
      else if e = 0x5C then Some 0x5C
      else if e = 0x2F then Some 0x2F
      else if e = 0x62 then Some 0x08
      else if e = 0x66 then Some 0x0C
      else if e = 0x6E then Some 0x0A
      else if e = 0x72 then Some 0x0D
      else if e = 0x74 then Some 0x09
      else None)"

definition cons_chr :: "nat \<Rightarrow> (pystr \<times> pystr) option \<Rightarrow> (pystr \<times> pystr) option" where
  "cons_chr c r = (case r of None \<Rightarrow> None | Some (t, rest) \<Rightarrow> Some (c # t, rest))"

text \<open>
  \<open>scanstring s\<close> reads a string whose opening quote has been consumed: the decoded
  string and the text after the closing quote.
\<close>

fun scanstring :: "pystr \<Rightarrow> (pystr \<times> pystr) option" where
  "scanstring [] = None"
| "scanstring (c # s) =
     (if c = 0x22 then Some ([], s)
      else if c = 0x5C then
        (case s of
           [] \<Rightarrow> None
         | e # s' \<Rightarrow>
             if e = 0x75 then
               (case decode_uXXXX (take 4 s') of
                  None \<Rightarrow> None
                | Some uni \<Rightarrow>
                    if 0xD800 \<le> uni \<and> uni \<le> 0xDBFF \<and> take 2 (drop 4 s') = [0x5C, 0x75]
                    then (case decode_uXXXX (take 4 (drop 6 s')) of
                            None \<Rightarrow> None
                          | Some uni2 \<Rightarrow>
                              if 0xDC00 \<le> uni2 \<and> uni2 \<le> 0xDFFF
                              then cons_chr (0x10000 + (uni - 0xD800) * 1024 + (uni2 - 0xDC00))
                                     (scanstring (drop 10 s'))
                              else cons_chr uni (scanstring (drop 4 s')))
                    else cons_chr uni (scanstring (drop 4 s')))
             else (case unescape e of
                     None \<Rightarrow> None
                   | Some ch \<Rightarrow> cons_chr ch (scanstring s')))
      else if c < 0x20 then None
      else cons_chr c (scanstring s))"

definition is_ws :: "nat \<Rightarrow> bool" where
  "is_ws c = (c = 0x20 \<or> c = 0x09 \<or> c = 0x0A \<or> c = 0x0D)"

definition skip_ws :: "pystr \<Rightarrow> pystr" where
  "skip_ws s = dropWhile is_ws s"

text \<open>Skip whitespace, then require the character \<open>c\<close>.\<close>

definition expect :: "nat \<Rightarrow> pystr \<Rightarrow> pystr option" where
  "expect c s = (case skip_ws s of [] \<Rightarrow> None | d # r \<Rightarrow> if d = c then Some r else None)"

definition parse_string :: "pystr \<Rightarrow> (pystr \<times> pystr) option" where
  "parse_string s = (case expect 0x22 s of None \<Rightarrow> None | Some r \<Rightarrow> scanstring r)"

text \<open>A member: a string, a colon, a string.\<close>

definition parse_member :: "pystr \<Rightarrow> ((pystr \<times> pystr) \<times> pystr) option" where
  "parse_member s =
     (case parse_string s of
        None \<Rightarrow> None
      | Some (k, s1) \<Rightarrow>
          (case expect 0x3A s1 of
             None \<Rightarrow> None
           | Some s2 \<Rightarrow>
               (case parse_string s2 of
                  None \<Rightarrow> None
                | Some (v, s3) \<Rightarrow> Some ((k, v), s3))))"

text \<open>Each reader consumes text, which is what makes the loop over the members end.\<close>

lemma scanstring_shorter: "scanstring s = Some (t, r) \<Longrightarrow> length r < length s"
proof (induction s arbitrary: t r rule: scanstring.induct)
  case 1
  then show ?case by simp
next
  case (2 c s)
  show ?case
    using "2.prems" "2.IH"
    by (fastforce simp: cons_chr_def split: if_splits list.splits option.splits prod.splits)
qed

lemma expect_shorter: "expect c s = Some r \<Longrightarrow> length r < length s"
proof -
  assume "expect c s = Some r"
  then have "skip_ws s = c # r"
    by (auto simp: expect_def split: list.splits if_splits)
  moreover have "length (skip_ws s) \<le> length s"
    by (simp add: skip_ws_def length_dropWhile_le)
  ultimately show ?thesis by simp
qed

lemma parse_string_shorter: "parse_string s = Some (t, r) \<Longrightarrow> length r < length s"
  by (auto simp: parse_string_def split: option.splits
      dest!: expect_shorter scanstring_shorter)

lemma parse_member_shorter: "parse_member s = Some (kv, r) \<Longrightarrow> length r < length s"
  by (auto simp: parse_member_def split: option.splits prod.splits
      dest!: expect_shorter parse_string_shorter)

text \<open>The members up to the closing brace, separated by commas.\<close>

function parse_members :: "pystr \<Rightarrow> ((pystr \<times> pystr) list \<times> pystr) option" where
  "parse_members s =
     (case parse_member s of
        None \<Rightarrow> None
      | Some (kv, s1) \<Rightarrow>
          (case expect 0x2C s1 of
             Some s2 \<Rightarrow>
               (case parse_members s2 of
                  None \<Rightarrow> None
                | Some (kvs, r) \<Rightarrow> Some (kv # kvs, r))
           | None \<Rightarrow>
               (case expect 0x7D s1 of
                  None \<Rightarrow> None
                | Some r \<Rightarrow> Some ([kv], r))))"
  by pat_completeness auto
termination
proof (relation "measure length")
  show "wf (measure length)" by simp
next
  fix s :: pystr and x2 kv s1 s2
  assume "parse_member s = Some x2" and "(kv, s1) = x2" and "expect 0x2C s1 = Some s2"
  then have "length s1 < length s" and "length s2 < length s1"
    using parse_member_shorter [of s kv s1] expect_shorter [of "0x2C" s1 s2] by simp_all
  then show "(s2, s) \<in> measure length" by simp
qed

declare parse_members.simps [simp del]

definition json_loads :: "pystr \<Rightarrow> (pystr \<times> pystr) list option" where
  "json_loads s =
     (case expect 0x7B s of
        None \<Rightarrow> None
      | Some s1 \<Rightarrow>
          (case expect 0x7D s1 of
             Some r \<Rightarrow> if skip_ws r = [] then Some [] else None
           | None \<Rightarrow>
               (case parse_members s1 of
                  None \<Rightarrow> None
                | Some (kvs, r) \<Rightarrow> if skip_ws r = [] then Some kvs else None)))"

text \<open>
  The code points of well-formed Unicode text: below \<open>0x110000\<close> and not a surrogate.
  Every printable character is one of them, like the quote and the backslash.
\<close>

definition unicode_scalar :: "nat \<Rightarrow> bool" where
  "unicode_scalar c = (c < 0x110000 \<and> \<not> (0xD800 \<le> c \<and> c \<le> 0xDFFF))"

text \<open>One member as \<open>iterencode_dict\<close> writes it, for a string key and a string value.\<close>

definition item :: "pystr \<times> pystr \<Rightarrow> pystr" where
  "item kv = encode_basestring_ascii (fst kv) @ ascii '': '' @ encode_basestring_ascii (snd kv)"

section \<open>Sample surroundings and instances\<close>

text \<open>
  A bus on which both services are up, expose their operations and answer \<open>None\<close>; a bus
  that cannot be opened; both with a standard output that takes every line; and the
  instances that the constructors build on the first.
\<close>

definition bus_up :: world where
  "bus_up = \<lparr>SystemBus = Reply (),
             bus_get = (\<lambda>name. Reply [''SetApplicationInfo'', ''SetApplicationStatus'',
                                       ''SendMessage'']),
             method_call = (\<lambda>name member arg. Reply VNone),
             write_stdout = (\<lambda>line. None)\<rparr>"

definition bus_down :: world where
  "bus_down = \<lparr>SystemBus = Error (ascii ''down''),
               bus_get = (\<lambda>name. Error (ascii ''down'')),
               method_call = (\<lambda>name member arg. Error (ascii ''down'')),
               write_stdout = (\<lambda>line. None)\<rparr>"

definition core_instance :: Edgeberry where
  "core_instance =
     \<lparr>Edgeberry.bus = Some (),
      edgeberry_core_service = Some \<lparr>service = EDGEBERRY_SERVICE,
        members = [''SetApplicationInfo'', ''SetApplicationStatus'', ''SendMessage'']\<rparr>\<rparr>"

definition cloudconnect_instance :: EdgeberryCloudConnect where
  "cloudconnect_instance =
     \<lparr>EdgeberryCloudConnect.bus = Some (),
      edgeberry_cloudconnect_service = Some \<lparr>service = EDGEBERRY_SERVICE_cloudconnect,
        members = [''SetApplicationInfo'', ''SetApplicationStatus'', ''SendMessage'']\<rparr>\<rparr>"

text \<open>
  A standard output whose encoding is ASCII: \<open>print\<close> raises \<open>UnicodeEncodeError\<close> on
  a line with a character beyond it (the message is shortened: the real one names the
  character and its position). And surroundings with that output in which the bus and
  the services fail with an error whose text is \<open>caf\<close> followed by e acute.
\<close>

definition ascii_stdout :: "pystr \<Rightarrow> exn option" where
  "ascii_stdout line =
     (if list_all (\<lambda>c. c < 0x80) line then None
      else Some (Exn UnicodeEncodeError (ascii ''ordinal not in range(128)'')))"

definition bus_cafe :: world where
  "bus_cafe = \<lparr>SystemBus = Error (ascii ''caf'' @ [0xE9]),
               bus_get = (\<lambda>name. Error (ascii ''caf'' @ [0xE9])),
               method_call = (\<lambda>name member arg. Error (ascii ''caf'' @ [0xE9])),
               write_stdout = ascii_stdout\<rparr>"

text \<open>
  The bus that is up with the ASCII standard output, and an object that \<open>json.dumps\<close>
  cannot serialise, of a class whose name ends in e acute (\<open>class Caf\<acute>: pass\<close>).
\<close>

definition bus_up_ascii :: world where
  "bus_up_ascii = bus_up\<lparr>write_stdout := ascii_stdout\<rparr>"

definition Cafe :: pyval where
  "Cafe = VObject (''Caf'' @ [CHR 0xE9])"

section \<open>What the \<open>try\<close> blocks can raise\<close>

lemma iterencode_exn:
  "iterencode v = Inl e \<longrightarrow> cls e = TypeError"
  "iterencode_list vs = Inl e \<longrightarrow> cls e = TypeError"
  "iterencode_dict kvs = Inl e \<longrightarrow> cls e = TypeError"
proof (induction v and vs and kvs rule: iterencode_iterencode_list_iterencode_dict.induct)
  case (10 k v kvs)
  have "key_str k = Inl e \<Longrightarrow> cls e = TypeError"
    by (cases k) auto
  with 10 show ?case
    by (auto split: sum.splits)
qed (auto split: sum.splits)

lemma json_dumps_Exception: "json_dumps v = Inl e \<Longrightarrow> isinstance_Exception e"
  using iterencode_exn(1) [of v e] by (cases e) (auto simp: json_dumps_def)

lemma proxy_call_Exception:
  "result (proxy_call env p m a) = Inl e \<Longrightarrow> isinstance_Exception e"
  by (auto simp: proxy_call_def raises_def split: if_splits reply.splits)

lemma set_application_info_try_Exception:
  "result (set_application_info_try self env n v d) = Inl e \<Longrightarrow> isinstance_Exception e"
  unfolding set_application_info_try_def Let_def
  by (auto simp: raises_def split: sum.splits option.splits
      dest: json_dumps_Exception proxy_call_Exception)

lemma set_status_try_Exception:
  "result (set_status_try self env l m) = Inl e \<Longrightarrow> isinstance_Exception e"
  unfolding set_status_try_def Let_def
  by (auto simp: raises_def split: sum.splits option.splits
      dest: json_dumps_Exception proxy_call_Exception)

lemma send_message_try_Exception:
  "result (send_message_try self env m) = Inl e \<Longrightarrow> isinstance_Exception e"
  unfolding send_message_try_def Let_def
  by (auto simp: raises_def split: sum.splits option.splits
      dest: json_dumps_Exception proxy_call_Exception)

lemma try_stdout_nil:
  "stdout (set_application_info_try self env n v d) = []"
  "stdout (set_status_try self env l m) = []"
  "stdout (send_message_try self' env m) = []"
  unfolding set_application_info_try_def set_status_try_def send_message_try_def Let_def
  by (auto simp: raises_def proxy_call_def split: sum.splits option.splits)

section \<open>Printing inside a handler\<close>

lemma print_return_sel:
  "result (print_return env line v) =
     (case write_stdout env line of None \<Rightarrow> Inr v | Some e \<Rightarrow> Inl e)"
  "calls (print_return env line v) = []"
  "stdout (print_return env line v) =
     (case write_stdout env line of None \<Rightarrow> [line] | Some e \<Rightarrow> [])"
  by (simp_all add: print_return_def split: option.splits)

lemma try_except_result:
  "(\<And>e. result body = Inl e \<Longrightarrow> isinstance_Exception e) \<Longrightarrow>
   result (try_except_Exception body (\<lambda>e. print_return env (line e) VNone)) =
     (case result body of
        Inr v \<Rightarrow> Inr v
      | Inl e \<Rightarrow> (case write_stdout env (line e) of None \<Rightarrow> Inr VNone | Some e' \<Rightarrow> Inl e'))"
  by (auto simp: try_except_Exception_def print_return_sel Let_def split: sum.splits)

lemma try_except_stdout:
  "(\<And>e. result body = Inl e \<Longrightarrow> isinstance_Exception e) \<Longrightarrow> stdout body = [] \<Longrightarrow>
   stdout (try_except_Exception body (\<lambda>e. print_return env (line e) VNone)) =
     (case result body of
        Inr v \<Rightarrow> []
      | Inl e \<Rightarrow> (case write_stdout env (line e) of None \<Rightarrow> [line e] | Some e' \<Rightarrow> []))"
  by (auto simp: try_except_Exception_def print_return_sel Let_def split: sum.splits)

lemma try_except_calls:
  "calls (try_except_Exception body (\<lambda>e. print_return env (line e) VNone)) = calls body"
  by (auto simp: try_except_Exception_def print_return_sel Let_def split: sum.splits)

section \<open>The constructors\<close>

lemma Edgeberry_init_cases:
  "Edgeberry_init env =
     (case SystemBus env of
        Error m \<Rightarrow>
          print_return env (ascii ''Edgeberry: error connecting to Edgeberry D-Bus: '' @ m)
            \<lparr>Edgeberry.bus = None, edgeberry_core_service = None\<rparr>
      | Reply u \<Rightarrow>
         (case bus_get env EDGEBERRY_SERVICE of
            Error m \<Rightarrow>
              print_return env (ascii ''Edgeberry: error connecting to Edgeberry D-Bus: '' @ m)
                \<lparr>Edgeberry.bus = Some (), edgeberry_core_service = None\<rparr>
          | Reply ms \<Rightarrow>
              \<lparr>result = Inr \<lparr>Edgeberry.bus = Some (), edgeberry_core_service =
                               Some \<lparr>service = EDGEBERRY_SERVICE, members = ms\<rparr>\<rparr>,
               calls = [], stdout = []\<rparr>))"
  by (simp add: Edgeberry_init_def Edgeberry_init_try_def Let_def returns_def
      str_exn_def split: reply.splits)

lemma EdgeberryCloudConnect_init_cases:
  "EdgeberryCloudConnect_init env =
     (case SystemBus env of
        Error m \<Rightarrow>
          print_return env
            (ascii ''CloudConnect: error connecting to Edgeberry Cloud Connect D-Bus API: '' @ m)
            \<lparr>EdgeberryCloudConnect.bus = None, edgeberry_cloudconnect_service = None\<rparr>
      | Reply u \<Rightarrow>
         (case bus_get env EDGEBERRY_SERVICE_cloudconnect of
            Error m \<Rightarrow>
              print_return env
                (ascii ''CloudConnect: error connecting to Edgeberry Cloud Connect D-Bus API: ''
                   @ m)
                \<lparr>EdgeberryCloudConnect.bus = Some (), edgeberry_cloudconnect_service = None\<rparr>
          | Reply ms \<Rightarrow>
              \<lparr>result = Inr \<lparr>EdgeberryCloudConnect.bus = Some (),
                   edgeberry_cloudconnect_service =
                     Some \<lparr>service = EDGEBERRY_SERVICE_cloudconnect, members = ms\<rparr>\<rparr>,
               calls = [], stdout = []\<rparr>))"
  by (simp add: EdgeberryCloudConnect_init_def EdgeberryCloudConnect_init_try_def Let_def
      returns_def str_exn_def split: reply.splits)

text \<open>
  C9, as the code has it. Whatever the state of the bus, the constructors never raise
  the connection error: \<open>Edgeberry()\<close> and \<open>EdgeberryCloudConnect()\<close> either complete
  and yield an instance, or the bus or the service was unreachable and the \<open>print\<close> of
  that error inside the handler raised, and it is the exception of \<open>print\<close> that
  reaches the caller. On a standard output that takes every line both constructors
  always yield an instance.
\<close>

theorem constructors_raise_only_from_print:
  "((\<exists>self. result (Edgeberry_init env) = Inr self) \<or>
    (\<exists>m e. (SystemBus env = Error m \<or> bus_get env EDGEBERRY_SERVICE = Error m) \<and>
       write_stdout env (ascii ''Edgeberry: error connecting to Edgeberry D-Bus: '' @ m) = Some e \<and>
       result (Edgeberry_init env) = Inl e)) \<and>
   ((\<exists>self. result (EdgeberryCloudConnect_init env) = Inr self) \<or>
    (\<exists>m e. (SystemBus env = Error m \<or> bus_get env EDGEBERRY_SERVICE_cloudconnect = Error m) \<and>
       write_stdout env
         (ascii ''CloudConnect: error connecting to Edgeberry Cloud Connect D-Bus API: '' @ m)
         = Some e \<and>
       result (EdgeberryCloudConnect_init env) = Inl e)) \<and>
   ((\<forall>line. write_stdout env line = None) \<longrightarrow>
      (\<exists>self. result (Edgeberry_init env) = Inr self) \<and>
      (\<exists>self. result (EdgeberryCloudConnect_init env) = Inr self))"
proof (intro conjI impI)
  show "(\<exists>self. result (Edgeberry_init env) = Inr self) \<or>
    (\<exists>m e. (SystemBus env = Error m \<or> bus_get env EDGEBERRY_SERVICE = Error m) \<and>
       write_stdout env (ascii ''Edgeberry: error connecting to Edgeberry D-Bus: '' @ m) = Some e \<and>
       result (Edgeberry_init env) = Inl e)"
    by (auto simp: Edgeberry_init_cases print_return_sel split: reply.splits option.splits)
  show "(\<exists>self. result (EdgeberryCloudConnect_init env) = Inr self) \<or>
    (\<exists>m e. (SystemBus env = Error m \<or> bus_get env EDGEBERRY_SERVICE_cloudconnect = Error m) \<and>
       write_stdout env
         (ascii ''CloudConnect: error connecting to Edgeberry Cloud Connect D-Bus API: '' @ m)
         = Some e \<and>
       result (EdgeberryCloudConnect_init env) = Inl e)"
    by (auto simp: EdgeberryCloudConnect_init_cases print_return_sel
        split: reply.splits option.splits)
next
  assume "\<forall>line. write_stdout env line = None"
  then show "\<exists>self. result (Edgeberry_init env) = Inr self"
    and "\<exists>self. result (EdgeberryCloudConnect_init env) = Inr self"
    by (simp_all add: Edgeberry_init_cases EdgeberryCloudConnect_init_cases print_return_sel
        split: reply.splits)
qed

text \<open>The bus that is down, with a standard output that takes every line.\<close>

theorem constructors_raise_only_from_print_witness:
  "(\<forall>line. write_stdout bus_down line = None) \<and>
   (\<exists>self. result (Edgeberry_init bus_down) = Inr self) \<and>
   (\<exists>self. result (EdgeberryCloudConnect_init bus_down) = Inr self)"
proof -
  have a: "\<forall>line. write_stdout bus_down line = None"
    by (simp add: bus_down_def)
  show ?thesis
    using a constructors_raise_only_from_print [of bus_down] by blast
qed

text \<open>
  The claim that the constructors never raise fails: when the bus is down, the text of
  its error has a character beyond ASCII and standard output is ASCII, the \<open>print\<close> in
  the handler raises \<open>UnicodeEncodeError\<close> and no instance is built.
\<close>

theorem constructors_raise_counterexample:
  "result (Edgeberry_init bus_cafe) =
     Inl (Exn UnicodeEncodeError (ascii ''ordinal not in range(128)'')) \<and>
   result (EdgeberryCloudConnect_init bus_cafe) =
     Inl (Exn UnicodeEncodeError (ascii ''ordinal not in range(128)''))"
  by (simp add: Edgeberry_init_cases EdgeberryCloudConnect_init_cases print_return_sel
      bus_cafe_def ascii_stdout_def ascii_def)

text \<open>
  C3, as the code has it. If the system bus cannot be opened, or the named service cannot
  be resolved, construction does not fail with a connection error: the handler catches
  it and prints its text. When the line is printed, the constructor yields an instance
  without a service handle (and without the \<open>bus\<close> attribute when the bus itself was
  unreachable) and no error reaches the caller; the only exception that can reach the
  caller is one raised by that \<open>print\<close>.
\<close>

theorem unreachable_construction_prints_and_continues:
  "(SystemBus env = Error m \<longrightarrow>
      Edgeberry_init env =
        (case write_stdout env (ascii ''Edgeberry: error connecting to Edgeberry D-Bus: '' @ m) of
           None \<Rightarrow>
             \<lparr>result = Inr \<lparr>Edgeberry.bus = None, edgeberry_core_service = None\<rparr>, calls = [],
              stdout = [ascii ''Edgeberry: error connecting to Edgeberry D-Bus: '' @ m]\<rparr>
         | Some e \<Rightarrow> \<lparr>result = Inl e, calls = [], stdout = []\<rparr>) \<and>
      EdgeberryCloudConnect_init env =
        (case write_stdout env
                (ascii ''CloudConnect: error connecting to Edgeberry Cloud Connect D-Bus API: ''
                   @ m) of
           None \<Rightarrow>
             \<lparr>result = Inr \<lparr>EdgeberryCloudConnect.bus = None,
                             edgeberry_cloudconnect_service = None\<rparr>,
              calls = [],
              stdout = [ascii ''CloudConnect: error connecting to Edgeberry Cloud Connect D-Bus API: ''
                          @ m]\<rparr>
         | Some e \<Rightarrow> \<lparr>result = Inl e, calls = [], stdout = []\<rparr>)) \<and>
   (SystemBus env = Reply u \<and> bus_get env EDGEBERRY_SERVICE = Error m \<longrightarrow>
      Edgeberry_init env =
        (case write_stdout env (ascii ''Edgeberry: error connecting to Edgeberry D-Bus: '' @ m) of
           None \<Rightarrow>
             \<lparr>result = Inr \<lparr>Edgeberry.bus = Some (), edgeberry_core_service = None\<rparr>,
              calls = [],
              stdout = [ascii ''Edgeberry: error connecting to Edgeberry D-Bus: '' @ m]\<rparr>
         | Some e \<Rightarrow> \<lparr>result = Inl e, calls = [], stdout = []\<rparr>)) \<and>
   (SystemBus env = Reply u \<and> bus_get env EDGEBERRY_SERVICE_cloudconnect = Error m \<longrightarrow>
      EdgeberryCloudConnect_init env =
        (case write_stdout env
                (ascii ''CloudConnect: error connecting to Edgeberry Cloud Connect D-Bus API: ''
                   @ m) of
           None \<Rightarrow>
             \<lparr>result = Inr \<lparr>EdgeberryCloudConnect.bus = Some (),
                             edgeberry_cloudconnect_service = None\<rparr>,
              calls = [],
              stdout = [ascii ''CloudConnect: error connecting to Edgeberry Cloud Connect D-Bus API: ''
                          @ m]\<rparr>
         | Some e \<Rightarrow> \<lparr>result = Inl e, calls = [], stdout = []\<rparr>))"
  by (simp add: Edgeberry_init_cases EdgeberryCloudConnect_init_cases print_return_def)

theorem unreachable_construction_witness:
  "SystemBus bus_down = Error (ascii ''down'') \<and>
   Edgeberry_init bus_down =
     \<lparr>result = Inr \<lparr>Edgeberry.bus = None, edgeberry_core_service = None\<rparr>, calls = [],
      stdout = [ascii ''Edgeberry: error connecting to Edgeberry D-Bus: '' @ ascii ''down'']\<rparr> \<and>
   SystemBus (bus_up\<lparr>bus_get := \<lambda>name. Error (ascii ''unknown'')\<rparr>) = Reply () \<and>
   bus_get (bus_up\<lparr>bus_get := \<lambda>name. Error (ascii ''unknown'')\<rparr>) EDGEBERRY_SERVICE
     = Error (ascii ''unknown'') \<and>
   Edgeberry_init (bus_up\<lparr>bus_get := \<lambda>name. Error (ascii ''unknown'')\<rparr>) =
     \<lparr>result = Inr \<lparr>Edgeberry.bus = Some (), edgeberry_core_service = None\<rparr>, calls = [],
      stdout = [ascii ''Edgeberry: error connecting to Edgeberry D-Bus: '' @ ascii ''unknown'']\<rparr>"
proof -
  have a: "SystemBus bus_down = Error (ascii ''down'')"
    "write_stdout bus_down line = None" for line
    by (simp_all add: bus_down_def)
  have b: "SystemBus (bus_up\<lparr>bus_get := \<lambda>name. Error (ascii ''unknown'')\<rparr>) = Reply ()"
    "bus_get (bus_up\<lparr>bus_get := \<lambda>name. Error (ascii ''unknown'')\<rparr>) EDGEBERRY_SERVICE
       = Error (ascii ''unknown'')"
    "write_stdout (bus_up\<lparr>bus_get := \<lambda>name. Error (ascii ''unknown'')\<rparr>) line = None" for line
    by (simp_all add: bus_up_def)
  show ?thesis
    using a b
      unreachable_construction_prints_and_continues [of bus_down "ascii ''down''" "()"]
      unreachable_construction_prints_and_continues
        [of "bus_up\<lparr>bus_get := \<lambda>name. Error (ascii ''unknown'')\<rparr>" "ascii ''unknown''" "()"]
    by simp
qed

text \<open>
  The claim as the specification words it fails: on a bus that cannot be opened both
  constructors return an instance instead of raising.
\<close>

theorem construction_does_not_fail_counterexample:
  "result (Edgeberry_init bus_down) =
     Inr \<lparr>Edgeberry.bus = None, edgeberry_core_service = None\<rparr> \<and>
   result (EdgeberryCloudConnect_init bus_down) =
     Inr \<lparr>EdgeberryCloudConnect.bus = None, edgeberry_cloudconnect_service = None\<rparr>"
  by (simp add: Edgeberry_init_cases EdgeberryCloudConnect_init_cases print_return_sel
      bus_down_def)

section \<open>The public methods\<close>

text \<open>
  C2, as the code has it. For every instance, every argument and every behaviour of the
  bus and of the remote service, \<open>set_application_info\<close>, \<open>set_status\<close> and
  \<open>send_message\<close> catch whatever their \<open>try\<close> block raises and hand the error to
  \<open>print\<close>. When the line is printed the method returns \<open>None\<close>, the value of a remote
  call that returned \<open>None\<close>, so the caller cannot tell the two apart; when \<open>print\<close>
  raises, its exception reaches the caller. When the block raises nothing, the method
  returns what the block returned.
\<close>

theorem public_methods_raise_only_from_print:
  "result (set_application_info self env name version description) =
     (case result (set_application_info_try self env name version description) of
        Inr v \<Rightarrow> Inr v
      | Inl e \<Rightarrow>
          (case write_stdout env (ascii ''Edgeberry: error setting status: '' @ str_exn e) of
             None \<Rightarrow> Inr VNone | Some e' \<Rightarrow> Inl e')) \<and>
   stdout (set_application_info self env name version description) =
     (case result (set_application_info_try self env name version description) of
        Inr v \<Rightarrow> []
      | Inl e \<Rightarrow>
          (case write_stdout env (ascii ''Edgeberry: error setting status: '' @ str_exn e) of
             None \<Rightarrow> [ascii ''Edgeberry: error setting status: '' @ str_exn e]
           | Some e' \<Rightarrow> [])) \<and>
   result (set_status self env level message) =
     (case result (set_status_try self env level message) of
        Inr v \<Rightarrow> Inr v
      | Inl e \<Rightarrow>
          (case write_stdout env (ascii ''Edgeberry: error setting status: '' @ str_exn e) of
             None \<Rightarrow> Inr VNone | Some e' \<Rightarrow> Inl e')) \<and>
   stdout (set_status self env level message) =
     (case result (set_status_try self env level message) of
        Inr v \<Rightarrow> []
      | Inl e \<Rightarrow>
          (case write_stdout env (ascii ''Edgeberry: error setting status: '' @ str_exn e) of
             None \<Rightarrow> [ascii ''Edgeberry: error setting status: '' @ str_exn e]
           | Some e' \<Rightarrow> [])) \<and>
   result (send_message self' env message') =
     (case result (send_message_try self' env message') of
        Inr v \<Rightarrow> Inr v
      | Inl e \<Rightarrow>
          (case write_stdout env (ascii ''CloudConnect: error sending message: '' @ str_exn e) of
             None \<Rightarrow> Inr VNone | Some e' \<Rightarrow> Inl e')) \<and>
   stdout (send_message self' env message') =
     (case result (send_message_try self' env message') of
        Inr v \<Rightarrow> []
      | Inl e \<Rightarrow>
          (case write_stdout env (ascii ''CloudConnect: error sending message: '' @ str_exn e) of
             None \<Rightarrow> [ascii ''CloudConnect: error sending message: '' @ str_exn e]
           | Some e' \<Rightarrow> []))"
  unfolding set_application_info_def set_status_def send_message_def
  by (intro conjI try_except_result try_except_stdout try_stdout_nil
        set_application_info_try_Exception set_status_try_Exception send_message_try_Exception)

text \<open>
  On the bus that is up the remote call returns \<open>None\<close>; on the bus that is down it
  fails and the error is printed. The caller sees \<open>None\<close> both times.
\<close>

theorem public_methods_raise_only_from_print_witness:
  "result (set_status core_instance bus_up (VStr (ascii ''ok'')) (VStr (ascii ''blub''))) = Inr VNone \<and>
   result (set_status_try core_instance bus_up (VStr (ascii ''ok'')) (VStr (ascii ''blub'')))
     = Inr VNone \<and>
   result (set_status core_instance bus_down (VStr (ascii ''ok'')) (VStr (ascii ''blub''))) = Inr VNone \<and>
   result (set_status_try core_instance bus_down (VStr (ascii ''ok'')) (VStr (ascii ''blub'')))
     = Inl (Exn GLibError (ascii ''down'')) \<and>
   stdout (set_status core_instance bus_down (VStr (ascii ''ok'')) (VStr (ascii ''blub'')))
     = [ascii ''Edgeberry: error setting status: down'']"
proof -
  have a: "result (set_status_try core_instance bus_up (VStr (ascii ''ok'')) (VStr (ascii ''blub'')))
     = Inr VNone"
    by (simp add: set_status_try_def json_dumps_def core_instance_def proxy_call_def bus_up_def)
  have b: "result (set_status_try core_instance bus_down (VStr (ascii ''ok'')) (VStr (ascii ''blub'')))
     = Inl (Exn GLibError (ascii ''down''))"
    by (simp add: set_status_try_def json_dumps_def core_instance_def proxy_call_def bus_down_def)
  have c: "write_stdout bus_down line = None" for line
    by (simp add: bus_down_def)
  show ?thesis
    using a b c
      public_methods_raise_only_from_print [of core_instance bus_up VNone VNone VNone
        "VStr (ascii ''ok'')" "VStr (ascii ''blub'')" cloudconnect_instance VNone]
      public_methods_raise_only_from_print [of core_instance bus_down VNone VNone VNone
        "VStr (ascii ''ok'')" "VStr (ascii ''blub'')" cloudconnect_instance VNone]
    by (simp add: str_exn_def ascii_def)
qed

text \<open>
  The claim that no exception ever reaches the caller fails: the remote call fails
  with an error whose text has a character beyond ASCII, standard output is ASCII, and
  the \<open>print\<close> in the handler raises \<open>UnicodeEncodeError\<close> out of each method.
\<close>

theorem public_methods_raise_counterexample:
  "result (set_application_info core_instance bus_cafe (VStr (ascii ''example''))
             (VStr (ascii ''v3.2.1'')) (VStr (ascii ''Edgeberry application example''))) =
     Inl (Exn UnicodeEncodeError (ascii ''ordinal not in range(128)'')) \<and>
   result (set_status core_instance bus_cafe (VStr (ascii ''ok'')) (VStr (ascii ''blub''))) =
     Inl (Exn UnicodeEncodeError (ascii ''ordinal not in range(128)'')) \<and>
   result (send_message cloudconnect_instance bus_cafe (VStr (ascii ''test message''))) =
     Inl (Exn UnicodeEncodeError (ascii ''ordinal not in range(128)''))"
  by (simp add: set_application_info_def set_application_info_try_def set_status_def
      set_status_try_def send_message_def send_message_try_def json_dumps_def
      core_instance_def cloudconnect_instance_def proxy_call_def try_except_Exception_def
      print_return_sel Let_def str_exn_def bus_cafe_def ascii_stdout_def ascii_def)






lemma encoding_fails_body:
  "json_dumps d = Inl e \<Longrightarrow>
   try_except_Exception (case json_dumps d of Inl e \<Rightarrow> raises e | Inr j \<Rightarrow> rest j)
       (\<lambda>e. print_return env (line e) VNone) =
     (case write_stdout env (line e) of
        None \<Rightarrow> \<lparr>result = Inr VNone, calls = [], stdout = [line e]\<rparr>
      | Some e' \<Rightarrow> \<lparr>result = Inl e', calls = [], stdout = []\<rparr>)"
  by (simp add: try_except_Exception_def raises_def print_return_def json_dumps_Exception
      split: option.splits)

lemma encoding_fails_calls:
  "json_dumps d = Inl e \<Longrightarrow>
   calls (try_except_Exception (case json_dumps d of Inl e \<Rightarrow> raises e | Inr j \<Rightarrow> rest j)
       (\<lambda>e. print_return env (line e) VNone)) = []"
  by (simp add: try_except_calls raises_def)

text \<open>
  C10, as the code has it. Whenever \<open>json.dumps\<close> fails on the dictionary a public
  method builds from its arguments, the method catches the error and invokes no remote
  operation, whatever happens next. It hands the error to \<open>print\<close> and, the line
  printed, returns \<open>None\<close>; a \<open>print\<close> that raises is the only other outcome, and then
  its exception reaches the caller.
\<close>

theorem encoding_failure_never_reaches_remote:
  "(json_dumps (VDict [(VStr (ascii ''name''), name), (VStr (ascii ''version''), version),
                       (VStr (ascii ''description''), description)]) = Inl e \<longrightarrow>
      calls (set_application_info self env name version description) = [] \<and>
      set_application_info self env name version description =
        (case write_stdout env (ascii ''Edgeberry: error setting status: '' @ str_exn e) of
           None \<Rightarrow> \<lparr>result = Inr VNone, calls = [],
                     stdout = [ascii ''Edgeberry: error setting status: '' @ str_exn e]\<rparr>
         | Some e' \<Rightarrow> \<lparr>result = Inl e', calls = [], stdout = []\<rparr>)) \<and>
   (json_dumps (VDict [(VStr (ascii ''level''), level),
                       (VStr (ascii ''message''), message)]) = Inl e \<longrightarrow>
      calls (set_status self env level message) = [] \<and>
      set_status self env level message =
        (case write_stdout env (ascii ''Edgeberry: error setting status: '' @ str_exn e) of
           None \<Rightarrow> \<lparr>result = Inr VNone, calls = [],
                     stdout = [ascii ''Edgeberry: error setting status: '' @ str_exn e]\<rparr>
         | Some e' \<Rightarrow> \<lparr>result = Inl e', calls = [], stdout = []\<rparr>)) \<and>
   (json_dumps (VDict [(VStr (ascii ''message''), message')]) = Inl e \<longrightarrow>
      calls (send_message self' env message') = [] \<and>
      send_message self' env message' =
        (case write_stdout env (ascii ''CloudConnect: error sending message: '' @ str_exn e) of
           None \<Rightarrow> \<lparr>result = Inr VNone, calls = [],
                     stdout = [ascii ''CloudConnect: error sending message: '' @ str_exn e]\<rparr>
         | Some e' \<Rightarrow> \<lparr>result = Inl e', calls = [], stdout = []\<rparr>))"
  unfolding set_application_info_def set_application_info_try_def set_status_def
    set_status_try_def send_message_def send_message_try_def Let_def
  by (intro conjI impI encoding_fails_body encoding_fails_calls)

text \<open>A \<open>bytes\<close> object as the description, on the bus that is up.\<close>

theorem encoding_failure_witness:
  "json_dumps (VDict [(VStr (ascii ''name''), VStr (ascii ''example'')),
                      (VStr (ascii ''version''), VStr (ascii ''v3.2.1'')),
                      (VStr (ascii ''description''), VObject ''bytes'')]) =
     Inl (Exn TypeError (ascii ''Object of type bytes is not JSON serializable'')) \<and>
   result (set_application_info core_instance bus_up (VStr (ascii ''example''))
             (VStr (ascii ''v3.2.1'')) (VObject ''bytes'')) = Inr VNone \<and>
   calls (set_application_info core_instance bus_up (VStr (ascii ''example''))
             (VStr (ascii ''v3.2.1'')) (VObject ''bytes'')) = []"
proof -
  have a: "json_dumps (VDict [(VStr (ascii ''name''), VStr (ascii ''example'')),
                      (VStr (ascii ''version''), VStr (ascii ''v3.2.1'')),
                      (VStr (ascii ''description''), VObject ''bytes'')]) =
     Inl (Exn TypeError (ascii ''Object of type bytes is not JSON serializable''))"
    by (simp add: json_dumps_def)
  have w: "write_stdout bus_up line = None" for line
    by (simp add: bus_up_def)
  show ?thesis
    using a w encoding_failure_never_reaches_remote
      [of "VStr (ascii ''example'')" "VStr (ascii ''v3.2.1'')" "VObject ''bytes''"
        "Exn TypeError (ascii ''Object of type bytes is not JSON serializable'')"
        core_instance bus_up]
    by simp
qed

text \<open>
  The claim that the method then returns \<open>None\<close> fails: on an instance with a handle
  and an ASCII standard output, the description is an object of the class \<open>Caf\<acute>\<close>;
  \<open>json.dumps\<close> fails, nothing is sent, and the \<open>print\<close> in the handler raises
  \<open>UnicodeEncodeError\<close>.
\<close>

theorem encoding_failure_counterexample:
  "json_dumps (VDict [(VStr (ascii ''name''), VStr (ascii ''example'')),
                      (VStr (ascii ''version''), VStr (ascii ''v3.2.1'')),
                      (VStr (ascii ''description''), Cafe)]) =
     Inl (Exn TypeError (ascii ''Object of type Caf'' @ [0xE9]
                           @ ascii '' is not JSON serializable'')) \<and>
   result (set_application_info core_instance bus_up_ascii (VStr (ascii ''example''))
             (VStr (ascii ''v3.2.1'')) Cafe) =
     Inl (Exn UnicodeEncodeError (ascii ''ordinal not in range(128)'')) \<and>
   calls (set_application_info core_instance bus_up_ascii (VStr (ascii ''example''))
             (VStr (ascii ''v3.2.1'')) Cafe) = []"
  by (simp add: set_application_info_def set_application_info_try_def json_dumps_def
      try_except_Exception_def raises_def print_return_sel Let_def str_exn_def
      bus_up_ascii_def bus_up_def ascii_stdout_def Cafe_def ascii_def core_instance_def)

section \<open>Strings as arguments\<close>

lemma json_dumps_str3:
  "json_dumps (VDict [(VStr k1, VStr v1), (VStr k2, VStr v2), (VStr k3, VStr v3)]) =
     Inr ([0x7B] @ encode_basestring_ascii k1 @ ascii '': '' @ encode_basestring_ascii v1
          @ ascii '', '' @ encode_basestring_ascii k2 @ ascii '': '' @ encode_basestring_ascii v2
          @ ascii '', '' @ encode_basestring_ascii k3 @ ascii '': '' @ encode_basestring_ascii v3
          @ [0x7D])"
  by (simp add: json_dumps_def)

lemma json_dumps_str2:
  "json_dumps (VDict [(VStr k1, VStr v1), (VStr k2, VStr v2)]) =
     Inr ([0x7B] @ encode_basestring_ascii k1 @ ascii '': '' @ encode_basestring_ascii v1
          @ ascii '', '' @ encode_basestring_ascii k2 @ ascii '': '' @ encode_basestring_ascii v2
          @ [0x7D])"
  by (simp add: json_dumps_def)

lemma json_dumps_str1:
  "json_dumps (VDict [(VStr k1, VStr v1)]) =
     Inr ([0x7B] @ encode_basestring_ascii k1 @ ascii '': '' @ encode_basestring_ascii v1
          @ [0x7D])"
  by (simp add: json_dumps_def)

text \<open>
  C5. On an instance that holds a service handle exposing \<open>SetApplicationInfo\<close>, for all
  strings \<open>name\<close>, \<open>version\<close> and \<open>description\<close> (any code points, the empty string
  too), \<open>set_application_info\<close> encodes the dictionary with exactly the keys \<open>name\<close>,
  \<open>version\<close>, \<open>description\<close> and the arguments as values, invokes \<open>SetApplicationInfo\<close>
  exactly once with that text, and returns what the remote call returns (when the call
  fails, the error is printed and \<open>None\<close> returned, unless \<open>print\<close> raises).
\<close>

theorem set_application_info_strings:
  assumes "edgeberry_core_service self = Some p"
    and "''SetApplicationInfo'' \<in> set (members p)"
  shows \<open>\<exists>arg.
     json_dumps (VDict [(VStr (ascii ''name''), VStr name),
                        (VStr (ascii ''version''), VStr version),
                        (VStr (ascii ''description''), VStr description)]) = Inr arg \<and>
     arg = ascii ''{"name": '' @ encode_basestring_ascii name
         @ ascii '', "version": '' @ encode_basestring_ascii version
         @ ascii '', "description": '' @ encode_basestring_ascii description @ ascii ''}'' \<and>
     calls (set_application_info self env (VStr name) (VStr version) (VStr description)) =
       [(service p, ''SetApplicationInfo'', arg)] \<and>
     result (set_application_info self env (VStr name) (VStr version) (VStr description)) =
       (case method_call env (service p) ''SetApplicationInfo'' arg of
          Reply v \<Rightarrow> Inr v
        | Error m \<Rightarrow>
            (case write_stdout env (ascii ''Edgeberry: error setting status: '' @ m) of
               None \<Rightarrow> Inr VNone | Some e \<Rightarrow> Inl e))\<close>
  using assms
  by (simp add: json_dumps_str3 set_application_info_def set_application_info_try_def
      try_except_Exception_def proxy_call_def print_return_sel str_exn_def Let_def
      encode_basestring_ascii_def escape_ascii_def ascii_def split: reply.splits)

text \<open>Empty strings and a string beyond ASCII, on the bus that is up.\<close>

theorem set_application_info_strings_witness:
  \<open>edgeberry_core_service core_instance =
     Some \<lparr>service = EDGEBERRY_SERVICE,
           members = [''SetApplicationInfo'', ''SetApplicationStatus'', ''SendMessage'']\<rparr> \<and>
   calls (set_application_info core_instance bus_up (VStr []) (VStr []) (VStr [0xE9, 0x1F600])) =
     [(EDGEBERRY_SERVICE, ''SetApplicationInfo'',
       ascii ''{"name": "", "version": "", "description": "'' @ [0x5C] @ ascii ''u00e9''
         @ [0x5C] @ ascii ''ud83d'' @ [0x5C] @ ascii ''ude00"}'')] \<and>
   result (set_application_info core_instance bus_up (VStr []) (VStr []) (VStr [0xE9, 0x1F600])) =
     Inr VNone\<close>
proof -
  have a: "edgeberry_core_service core_instance =
     Some \<lparr>service = EDGEBERRY_SERVICE,
           members = [''SetApplicationInfo'', ''SetApplicationStatus'', ''SendMessage'']\<rparr>"
    by (simp add: core_instance_def)
  have b: "method_call bus_up s m x = Reply VNone" for s m x
    by (simp add: bus_up_def)
  show ?thesis
    using a b set_application_info_strings
      [OF a, where env = bus_up and name = "[]" and version = "[]"
        and description = "[0xE9, 0x1F600]"]
    by (simp add: encode_basestring_ascii_def escape_ascii_def replace_def hex4_def
        hexdigit_def ascii_def)
qed

text \<open>
  C6. On an instance that holds a service handle exposing \<open>SetApplicationStatus\<close>, for
  all strings \<open>level\<close> and \<open>message\<close>, \<open>set_status\<close> encodes the dictionary with exactly
  the keys \<open>level\<close> and \<open>message\<close> and the arguments as values, and invokes
  \<open>SetApplicationStatus\<close> exactly once with that text.
\<close>

theorem set_status_strings:
  assumes "edgeberry_core_service self = Some p"
    and "''SetApplicationStatus'' \<in> set (members p)"
  shows \<open>\<exists>arg.
     json_dumps (VDict [(VStr (ascii ''level''), VStr level),
                        (VStr (ascii ''message''), VStr message)]) = Inr arg \<and>
     arg = ascii ''{"level": '' @ encode_basestring_ascii level
         @ ascii '', "message": '' @ encode_basestring_ascii message @ ascii ''}'' \<and>
     calls (set_status self env (VStr level) (VStr message)) =
       [(service p, ''SetApplicationStatus'', arg)] \<and>
     result (set_status self env (VStr level) (VStr message)) =
       (case method_call env (service p) ''SetApplicationStatus'' arg of
          Reply v \<Rightarrow> Inr v
        | Error m \<Rightarrow>
            (case write_stdout env (ascii ''Edgeberry: error setting status: '' @ m) of
               None \<Rightarrow> Inr VNone | Some e \<Rightarrow> Inl e))\<close>
  using assms
  by (simp add: json_dumps_str2 set_status_def set_status_try_def
      try_except_Exception_def proxy_call_def print_return_sel str_exn_def Let_def
      encode_basestring_ascii_def escape_ascii_def ascii_def split: reply.splits)

text \<open>The call of \<open>example.py\<close>.\<close>

theorem set_status_strings_witness:
  \<open>edgeberry_core_service core_instance =
     Some \<lparr>service = EDGEBERRY_SERVICE,
           members = [''SetApplicationInfo'', ''SetApplicationStatus'', ''SendMessage'']\<rparr> \<and>
   calls (set_status core_instance bus_up (VStr (ascii ''ok'')) (VStr (ascii ''blub''))) =
     [(EDGEBERRY_SERVICE, ''SetApplicationStatus'',
       ascii ''{"level": "ok", "message": "blub"}'')]\<close>
proof -
  have a: "edgeberry_core_service core_instance =
     Some \<lparr>service = EDGEBERRY_SERVICE,
           members = [''SetApplicationInfo'', ''SetApplicationStatus'', ''SendMessage'']\<rparr>"
    by (simp add: core_instance_def)
  show ?thesis
    using a set_status_strings
      [OF a, where env = bus_up and level = "ascii ''ok''" and message = "ascii ''blub''"]
    by (simp add: encode_basestring_ascii_def escape_ascii_def ascii_def)
qed

text \<open>
  C7. On an instance that holds a service handle exposing \<open>SendMessage\<close>, for every
  string \<open>message\<close>, the empty one too, \<open>send_message\<close> encodes the dictionary with the
  single key \<open>message\<close> and the argument as its value, and invokes \<open>SendMessage\<close> exactly
  once with that text.
\<close>

theorem send_message_strings:
  assumes "edgeberry_cloudconnect_service self = Some p"
    and "''SendMessage'' \<in> set (members p)"
  shows \<open>\<exists>arg.
     json_dumps (VDict [(VStr (ascii ''message''), VStr message)]) = Inr arg \<and>
     arg = ascii ''{"message": '' @ encode_basestring_ascii message @ ascii ''}'' \<and>
     calls (send_message self env (VStr message)) = [(service p, ''SendMessage'', arg)] \<and>
     result (send_message self env (VStr message)) =
       (case method_call env (service p) ''SendMessage'' arg of
          Reply v \<Rightarrow> Inr v
        | Error m \<Rightarrow>
            (case write_stdout env (ascii ''CloudConnect: error sending message: '' @ m) of
               None \<Rightarrow> Inr VNone | Some e \<Rightarrow> Inl e))\<close>
  using assms
  by (simp add: json_dumps_str1 send_message_def send_message_try_def
      try_except_Exception_def proxy_call_def print_return_sel str_exn_def Let_def
      encode_basestring_ascii_def escape_ascii_def ascii_def split: reply.splits)

text \<open>The empty message, on the bus that is up.\<close>

theorem send_message_strings_witness:
  \<open>edgeberry_cloudconnect_service cloudconnect_instance =
     Some \<lparr>service = EDGEBERRY_SERVICE_cloudconnect,
           members = [''SetApplicationInfo'', ''SetApplicationStatus'', ''SendMessage'']\<rparr> \<and>
   calls (send_message cloudconnect_instance bus_up (VStr [])) =
     [(EDGEBERRY_SERVICE_cloudconnect, ''SendMessage'', ascii ''{"message": ""}'')]\<close>
proof -
  have a: "edgeberry_cloudconnect_service cloudconnect_instance =
     Some \<lparr>service = EDGEBERRY_SERVICE_cloudconnect,
           members = [''SetApplicationInfo'', ''SetApplicationStatus'', ''SendMessage'']\<rparr>"
    by (simp add: cloudconnect_instance_def)
  show ?thesis
    using a send_message_strings [OF a, where env = bus_up and message = "[]"]
    by (simp add: encode_basestring_ascii_def escape_ascii_def ascii_def)
qed

text \<open>
  C1, as the code has it. On an instance that holds a service handle exposing
  \<open>SetApplicationInfo\<close>, the call
  \<open>set_application_info("example", "v3.2.1", "Edgeberry application example")\<close> invokes
  the operation once with the text that \<open>json.dumps\<close> writes with its default
  separators, a space after each colon and each comma, the keys in the order \<open>name\<close>,
  \<open>version\<close>, \<open>description\<close>.
\<close>

theorem set_application_info_example:
  assumes "edgeberry_core_service self = Some p"
    and "''SetApplicationInfo'' \<in> set (members p)"
  shows \<open>calls (set_application_info self env (VStr (ascii ''example''))
             (VStr (ascii ''v3.2.1'')) (VStr (ascii ''Edgeberry application example''))) =
     [(service p, ''SetApplicationInfo'',
       ascii ''{"name": "example", "version": "v3.2.1", "description": "Edgeberry application example"}'')]\<close>
  using assms
  by (simp add: json_dumps_str3 set_application_info_def set_application_info_try_def
      try_except_Exception_def proxy_call_def print_return_sel str_exn_def Let_def
      encode_basestring_ascii_def escape_ascii_def ascii_def split: reply.splits)

theorem set_application_info_example_witness:
  \<open>result (Edgeberry_init bus_up) = Inr core_instance \<and>
   calls (set_application_info core_instance bus_up (VStr (ascii ''example''))
             (VStr (ascii ''v3.2.1'')) (VStr (ascii ''Edgeberry application example''))) =
     [(EDGEBERRY_SERVICE, ''SetApplicationInfo'',
       ascii ''{"name": "example", "version": "v3.2.1", "description": "Edgeberry application example"}'')]\<close>
proof -
  have a: "edgeberry_core_service core_instance =
     Some \<lparr>service = EDGEBERRY_SERVICE,
           members = [''SetApplicationInfo'', ''SetApplicationStatus'', ''SendMessage'']\<rparr>"
    by (simp add: core_instance_def)
  have b: "result (Edgeberry_init bus_up) = Inr core_instance"
    by (simp add: Edgeberry_init_cases bus_up_def core_instance_def)
  show ?thesis
    using b set_application_info_example [OF a, where env = bus_up]
    by simp
qed

text \<open>
  The text without spaces that the specification gives is not what is sent.
\<close>

theorem set_application_info_compact_counterexample:
  \<open>result (Edgeberry_init bus_up) = Inr core_instance \<and>
   calls (set_application_info core_instance bus_up (VStr (ascii ''example''))
             (VStr (ascii ''v3.2.1'')) (VStr (ascii ''Edgeberry application example''))) \<noteq>
     [(EDGEBERRY_SERVICE, ''SetApplicationInfo'',
       ascii ''{"name":"example","version":"v3.2.1","description":"Edgeberry application example"}'')]\<close>
  by (simp add: Edgeberry_init_cases bus_up_def core_instance_def
      json_dumps_str3 set_application_info_def set_application_info_try_def
      try_except_Exception_def proxy_call_def print_return_sel str_exn_def Let_def
      encode_basestring_ascii_def escape_ascii_def ascii_def)

section \<open>Decoding what was encoded\<close>

lemma unhex_hexdigit: "d < 16 \<Longrightarrow> unhex (hexdigit d) = Some d"
  by (auto simp: unhex_def hexdigit_def)

lemma hex_digits_value:
  assumes "n < 0x10000"
  shows "((n div 4096 mod 16 * 16 + n div 256 mod 16) * 16 + n div 16 mod 16) * 16 + n mod 16 = (n::nat)"
proof -
  define a where "a = n div 16"
  define b where "b = a div 16"
  define c where "c = b div 16"
  have b: "n div 256 = b"
    unfolding a_def b_def by (simp add: div_mult2_eq [symmetric])
  have c: "n div 4096 = c"
    unfolding a_def b_def c_def by (simp add: div_mult2_eq [symmetric])
  have "c < 16"
    using assms unfolding c [symmetric] by simp
  then have "c mod 16 = c" by simp
  moreover have "c * 16 + b mod 16 = b"
    unfolding c_def by simp
  moreover have "b * 16 + a mod 16 = a"
    unfolding b_def by simp
  moreover have "a * 16 + n mod 16 = n"
    unfolding a_def by simp
  ultimately show ?thesis
    unfolding b c a_def [symmetric] by simp
qed

lemma decode_hex4:
  assumes "n < 0x10000"
  shows "decode_uXXXX (hex4 n) = Some n"
proof -
  have "decode_uXXXX (hex4 n) =
      Some (((n div 4096 mod 16 * 16 + n div 256 mod 16) * 16 + n div 16 mod 16) * 16 + n mod 16)"
    by (simp add: hex4_def unhex_hexdigit)
  then show ?thesis
    by (simp only: hex_digits_value [OF assms])
qed

lemma length_hex4: "length (hex4 n) = 4"
  by (simp add: hex4_def)


lemma scan_plain:
  "0x20 \<le> c \<Longrightarrow> c \<noteq> 0x22 \<Longrightarrow> c \<noteq> 0x5C \<Longrightarrow>
   scanstring (c # rest) = cons_chr c (scanstring rest)"
  by simp

lemma scan_short:
  "e \<noteq> 0x75 \<Longrightarrow> unescape e = Some c \<Longrightarrow>
   scanstring (0x5C # e # rest) = cons_chr c (scanstring rest)"
  by simp

lemma scan_bmp:
  assumes "c < 0x10000" and "\<not> (0xD800 \<le> c \<and> c \<le> 0xDBFF)"
  shows "scanstring (0x5C # 0x75 # hex4 c @ rest) = cons_chr c (scanstring rest)"
  using assms by (auto simp: decode_hex4 length_hex4)

lemma scan_pair:
  assumes "0xD800 \<le> hi" "hi \<le> 0xDBFF" "0xDC00 \<le> lo" "lo \<le> 0xDFFF"
  shows "scanstring (0x5C # 0x75 # hex4 hi @ 0x5C # 0x75 # hex4 lo @ rest) =
           cons_chr (0x10000 + (hi - 0xD800) * 1024 + (lo - 0xDC00)) (scanstring rest)"
  using assms by (simp add: decode_hex4 length_hex4)


lemma surrogates_of:
  assumes "0x10000 \<le> c" and "c < 0x110000"
  shows "0xD800 + (c - 0x10000) div 1024 mod 1024 \<le> (0xDBFF::nat)"
    and "0xDC00 + (c - 0x10000) mod 1024 \<le> (0xDFFF::nat)"
    and "0x10000 + (c - 0x10000) div 1024 mod 1024 * 1024 + (c - 0x10000) mod 1024 = c"
proof -
  define n where "n = c - 0x10000"
  have n: "n < 0x100000" and c: "c = 0x10000 + n"
    using assms by (simp_all add: n_def)
  have "n div 1024 < 1024"
    using n by simp
  then have m: "n div 1024 mod 1024 = n div 1024"
    by simp
  show "0xD800 + (c - 0x10000) div 1024 mod 1024 \<le> (0xDBFF::nat)"
    using \<open>n div 1024 < 1024\<close> unfolding n_def [symmetric] m by simp
  have "n mod 1024 < 1024" by simp
  then show "0xDC00 + (c - 0x10000) mod 1024 \<le> (0xDFFF::nat)"
    unfolding n_def [symmetric] by simp
  have "0x10000 + n div 1024 mod 1024 * 1024 + n mod 1024 = 0x10000 + n"
    unfolding m by simp
  then show "0x10000 + (c - 0x10000) div 1024 mod 1024 * 1024 + (c - 0x10000) mod 1024 = c"
    unfolding n_def using assms(1) by simp
qed

lemma scan_escape_ascii:
  assumes "unicode_scalar c"
  shows "scanstring (escape_ascii c @ rest) = cons_chr c (scanstring rest)"
proof -
  consider (plain) "0x20 \<le> c" "c \<le> 0x7E" "c \<noteq> 0x22" "c \<noteq> 0x5C"
    | (short) "c = 0x5C \<or> c = 0x22 \<or> c = 0x08 \<or> c = 0x0C \<or> c = 0x0A \<or> c = 0x0D \<or> c = 0x09"
    | (bmp) "c < 0x20 \<or> 0x7E < c" "c < 0x10000"
        "c \<noteq> 0x08" "c \<noteq> 0x0C" "c \<noteq> 0x0A" "c \<noteq> 0x0D" "c \<noteq> 0x09"
    | (astral) "0x10000 \<le> c"
    by linarith
  then show ?thesis
  proof cases
    case plain
    then show ?thesis
      by (simp add: escape_ascii_def)
  next
    case short
    then show ?thesis
      by (auto simp: escape_ascii_def replace_def unescape_def)
  next
    case bmp
    have e: "escape_ascii c = [0x5C, 0x75] @ hex4 c"
      using bmp by (auto simp: escape_ascii_def replace_def)
    have "\<not> (0xD800 \<le> c \<and> c \<le> 0xDBFF)"
      using assms by (auto simp: unicode_scalar_def)
    with bmp(2) show ?thesis
      unfolding e using scan_bmp [of c rest] by simp
  next
    case astral
    have c: "c < 0x110000"
      using assms by (simp add: unicode_scalar_def)
    define hi where "hi = 0xD800 + (c - 0x10000) div 1024 mod 1024"
    define lo where "lo = 0xDC00 + (c - 0x10000) mod 1024"
    have e: "escape_ascii c = [0x5C, 0x75] @ hex4 hi @ [0x5C, 0x75] @ hex4 lo"
      using astral by (simp add: escape_ascii_def replace_def Let_def hi_def lo_def)
    have hi: "0xD800 \<le> hi" "hi \<le> 0xDBFF" and lo: "0xDC00 \<le> lo" "lo \<le> 0xDFFF"
      using surrogates_of(1,2) [OF astral c] by (simp_all add: hi_def lo_def)
    have v: "0x10000 + (hi - 0xD800) * 1024 + (lo - 0xDC00) = c"
      using surrogates_of(3) [OF astral c] by (simp add: hi_def lo_def)
    show ?thesis
      unfolding e using scan_pair [OF hi lo, of rest] v by simp
  qed
qed

lemma scan_encoded:
  "list_all unicode_scalar s \<Longrightarrow>
   scanstring (concat (map escape_ascii s) @ 0x22 # rest) = Some (s, rest)"
proof (induction s)
  case Nil
  show ?case by simp
next
  case (Cons c s)
  then have "scanstring (escape_ascii c @ concat (map escape_ascii s) @ 0x22 # rest)
      = cons_chr c (Some (s, rest))"
    by (simp add: scan_escape_ascii del: scanstring.simps)
  then show ?case
    by (simp add: cons_chr_def del: scanstring.simps)
qed


lemma expect_here: "\<not> is_ws c \<Longrightarrow> expect c (c # s) = Some s"
  by (simp add: expect_def skip_ws_def)

lemma expect_other: "\<not> is_ws d \<Longrightarrow> d \<noteq> c \<Longrightarrow> expect c (d # s) = None"
  by (simp add: expect_def skip_ws_def)

lemma expect_space: "expect c (0x20 # s) = expect c s"
  by (simp add: expect_def skip_ws_def is_ws_def)

lemma parse_string_space: "parse_string (0x20 # s) = parse_string s"
  by (simp add: parse_string_def expect_space)

lemma parse_string_encoded:
  "list_all unicode_scalar s \<Longrightarrow>
   parse_string (encode_basestring_ascii s @ rest) = Some (s, rest)"
  using scan_encoded [of s rest]
  by (simp add: parse_string_def encode_basestring_ascii_def expect_here is_ws_def
      del: scanstring.simps)

lemma parse_member_item:
  assumes "list_all unicode_scalar (fst kv)" and "list_all unicode_scalar (snd kv)"
  shows "parse_member (item kv @ rest) = Some (kv, rest)"
proof -
  have "parse_string (item kv @ rest) =
      Some (fst kv, 0x3A # 0x20 # encode_basestring_ascii (snd kv) @ rest)"
    using parse_string_encoded [OF assms(1)] by (simp add: item_def ascii_def)
  moreover have "parse_string (0x20 # encode_basestring_ascii (snd kv) @ rest) = Some (snd kv, rest)"
    using parse_string_encoded [OF assms(2)] by (simp add: parse_string_space)
  ultimately show ?thesis
    by (simp add: parse_member_def expect_here is_ws_def)
qed

lemma parse_members_space: "parse_members (0x20 # s) = parse_members s"
proof -
  have "parse_member (0x20 # s) = parse_member s"
    by (simp add: parse_member_def parse_string_space)
  then show ?thesis
    by (simp add: parse_members.simps [of "0x20 # s"] parse_members.simps [of s])
qed

lemma parse_members_items:
  "kvs \<noteq> [] \<Longrightarrow> list_all (\<lambda>kv. list_all unicode_scalar (fst kv) \<and> list_all unicode_scalar (snd kv)) kvs \<Longrightarrow>
   parse_members (join (ascii '', '') (map item kvs) @ 0x7D # rest) = Some (kvs, rest)"
proof (induction kvs)
  case Nil
  then show ?case by simp
next
  case (Cons kv kvs)
  then have kv: "list_all unicode_scalar (fst kv)" "list_all unicode_scalar (snd kv)"
    by simp_all
  show ?case
  proof (cases kvs)
    case Nil
    have "parse_member (item kv @ 0x7D # rest) = Some (kv, 0x7D # rest)"
      by (rule parse_member_item [OF kv])
    then show ?thesis
      unfolding Nil
      by (simp add: parse_members.simps [of "item kv @ 0x7D # rest"]
          expect_here expect_other is_ws_def)
  next
    case (Cons kv' kvs')
    let ?tail = "join (ascii '', '') (map item kvs) @ 0x7D # rest"
    have ih: "parse_members ?tail = Some (kvs, rest)"
      using Cons.IH Cons.prems Cons by simp
    have j: "join (ascii '', '') (map item (kv # kvs)) @ 0x7D # rest
        = item kv @ 0x2C # 0x20 # ?tail"
      unfolding Cons by (simp add: ascii_def)
    have "parse_member (item kv @ 0x2C # 0x20 # ?tail) = Some (kv, 0x2C # 0x20 # ?tail)"
      by (rule parse_member_item [OF kv])
    then show ?thesis
      unfolding j
      by (simp add: parse_members.simps [of "item kv @ 0x2C # 0x20 # ?tail"]
          expect_here is_ws_def parse_members_space ih)
  qed
qed

lemma iterencode_dict_strings:
  "iterencode_dict (map (\<lambda>kv. (VStr (fst kv), VStr (snd kv))) kvs) = Inr (map item kvs)"
  by (induction kvs) (simp_all add: item_def)

lemma item_starts: "\<exists>t. item kv = 0x22 # t"
  by (simp add: item_def encode_basestring_ascii_def)

lemma json_loads_dumps:
  assumes "kvs \<noteq> []"
    and "list_all (\<lambda>kv. list_all unicode_scalar (fst kv) \<and> list_all unicode_scalar (snd kv)) kvs"
  shows "\<exists>arg. json_dumps (VDict (map (\<lambda>kv. (VStr (fst kv), VStr (snd kv))) kvs)) = Inr arg \<and>
           json_loads arg = Some kvs"
proof -
  let ?body = "join (ascii '', '') (map item kvs)"
  have d: "json_dumps (VDict (map (\<lambda>kv. (VStr (fst kv), VStr (snd kv))) kvs))
      = Inr (0x7B # ?body @ [0x7D])"
    by (simp add: json_dumps_def iterencode_dict_strings)
  obtain kv kvs' where k: "kvs = kv # kvs'"
    using assms(1) by (cases kvs) auto
  obtain t where t: "item kv = 0x22 # t"
    using item_starts by blast
  have "\<exists>u. ?body @ [0x7D] = 0x22 # u"
    unfolding k using t by (cases kvs') simp_all
  then obtain u where u: "?body @ [0x7D] = 0x22 # u" ..
  have "expect 0x7D (?body @ [0x7D]) = None"
    unfolding u by (simp add: expect_other is_ws_def)
  moreover have "parse_members (?body @ [0x7D]) = Some (kvs, [])"
    using parse_members_items [OF assms, of "[]"] by simp
  ultimately have "json_loads (0x7B # ?body @ [0x7D]) = Some kvs"
    by (simp add: json_loads_def expect_here is_ws_def skip_ws_def)
  with d show ?thesis by blast
qed

lemma calls_argument:
  "c \<in> set (calls (set_application_info self env name version description)) \<Longrightarrow>
     json_dumps (VDict [(VStr (ascii ''name''), name), (VStr (ascii ''version''), version),
                        (VStr (ascii ''description''), description)]) = Inr (snd (snd c))"
  "c \<in> set (calls (set_status self env level message)) \<Longrightarrow>
     json_dumps (VDict [(VStr (ascii ''level''), level),
                        (VStr (ascii ''message''), message)]) = Inr (snd (snd c))"
  "c \<in> set (calls (send_message self' env message')) \<Longrightarrow>
     json_dumps (VDict [(VStr (ascii ''message''), message')]) = Inr (snd (snd c))"
  unfolding set_application_info_def set_application_info_try_def set_status_def
    set_status_try_def send_message_def send_message_try_def Let_def
  by (auto simp: try_except_Exception_def proxy_call_def raises_def print_return_sel Let_def
      split: sum.splits option.splits if_splits)

lemma keys_scalar:
  "list_all unicode_scalar (ascii ''name'')"
  "list_all unicode_scalar (ascii ''version'')"
  "list_all unicode_scalar (ascii ''description'')"
  "list_all unicode_scalar (ascii ''level'')"
  "list_all unicode_scalar (ascii ''message'')"
  by (simp_all add: unicode_scalar_def ascii_def)

text \<open>
  C8. Let the field values be strings of Unicode scalar values: any code points but
  surrogates, so every printable string, with quotes and backslashes. Then the text that
  \<open>set_application_info\<close>, \<open>set_status\<close> and \<open>send_message\<close> encode decodes to exactly
  the keys of the method with the original values, and so does the argument of every
  remote invocation the method makes.
\<close>

theorem decode_after_encode:
  assumes "list_all unicode_scalar name" and "list_all unicode_scalar version"
    and "list_all unicode_scalar description" and "list_all unicode_scalar level"
    and "list_all unicode_scalar message" and "list_all unicode_scalar message'"
  shows
   "(\<exists>arg. json_dumps (VDict [(VStr (ascii ''name''), VStr name),
                               (VStr (ascii ''version''), VStr version),
                               (VStr (ascii ''description''), VStr description)]) = Inr arg \<and>
       json_loads arg = Some [(ascii ''name'', name), (ascii ''version'', version),
                              (ascii ''description'', description)]) \<and>
    (\<exists>arg. json_dumps (VDict [(VStr (ascii ''level''), VStr level),
                               (VStr (ascii ''message''), VStr message)]) = Inr arg \<and>
       json_loads arg = Some [(ascii ''level'', level), (ascii ''message'', message)]) \<and>
    (\<exists>arg. json_dumps (VDict [(VStr (ascii ''message''), VStr message')]) = Inr arg \<and>
       json_loads arg = Some [(ascii ''message'', message')]) \<and>
    (\<forall>c \<in> set (calls (set_application_info self env (VStr name) (VStr version)
                          (VStr description))).
       json_loads (snd (snd c)) = Some [(ascii ''name'', name), (ascii ''version'', version),
                                        (ascii ''description'', description)]) \<and>
    (\<forall>c \<in> set (calls (set_status self env (VStr level) (VStr message))).
       json_loads (snd (snd c)) = Some [(ascii ''level'', level), (ascii ''message'', message)]) \<and>
    (\<forall>c \<in> set (calls (send_message self' env (VStr message'))).
       json_loads (snd (snd c)) = Some [(ascii ''message'', message')])"
proof -
  have a: "\<exists>arg. json_dumps (VDict [(VStr (ascii ''name''), VStr name),
                               (VStr (ascii ''version''), VStr version),
                               (VStr (ascii ''description''), VStr description)]) = Inr arg \<and>
       json_loads arg = Some [(ascii ''name'', name), (ascii ''version'', version),
                              (ascii ''description'', description)]"
    using json_loads_dumps [of "[(ascii ''name'', name), (ascii ''version'', version),
                              (ascii ''description'', description)]"] assms keys_scalar
    by simp
  have b: "\<exists>arg. json_dumps (VDict [(VStr (ascii ''level''), VStr level),
                               (VStr (ascii ''message''), VStr message)]) = Inr arg \<and>
       json_loads arg = Some [(ascii ''level'', level), (ascii ''message'', message)]"
    using json_loads_dumps [of "[(ascii ''level'', level), (ascii ''message'', message)]"]
      assms keys_scalar
    by simp
  have c: "\<exists>arg. json_dumps (VDict [(VStr (ascii ''message''), VStr message')]) = Inr arg \<and>
       json_loads arg = Some [(ascii ''message'', message')]"
    using json_loads_dumps [of "[(ascii ''message'', message')]"] assms keys_scalar
    by simp
  show ?thesis
  proof (intro conjI ballI)
    show "\<exists>arg. json_dumps (VDict [(VStr (ascii ''name''), VStr name),
                               (VStr (ascii ''version''), VStr version),
                               (VStr (ascii ''description''), VStr description)]) = Inr arg \<and>
       json_loads arg = Some [(ascii ''name'', name), (ascii ''version'', version),
                              (ascii ''description'', description)]"
      by (rule a)
    show "\<exists>arg. json_dumps (VDict [(VStr (ascii ''level''), VStr level),
                               (VStr (ascii ''message''), VStr message)]) = Inr arg \<and>
       json_loads arg = Some [(ascii ''level'', level), (ascii ''message'', message)]"
      by (rule b)
    show "\<exists>arg. json_dumps (VDict [(VStr (ascii ''message''), VStr message')]) = Inr arg \<and>
       json_loads arg = Some [(ascii ''message'', message')]"
      by (rule c)
  next
    fix c
    assume "c \<in> set (calls (set_application_info self env (VStr name) (VStr version)
                          (VStr description)))"
    then show "json_loads (snd (snd c)) = Some [(ascii ''name'', name), (ascii ''version'', version),
                                        (ascii ''description'', description)]"
      using a calls_argument(1) by fastforce
  next
    fix c
    assume "c \<in> set (calls (set_status self env (VStr level) (VStr message)))"
    then show "json_loads (snd (snd c)) = Some [(ascii ''level'', level), (ascii ''message'', message)]"
      using b calls_argument(2) by fastforce
  next
    fix c
    assume "c \<in> set (calls (send_message self' env (VStr message')))"
    then show "json_loads (snd (snd c)) = Some [(ascii ''message'', message')]"
      using c calls_argument(3) by fastforce
  qed
qed

text \<open>
  A message with a quote, a backslash, a letter beyond ASCII and a character beyond the
  basic plane: the text sent, and what the decoder reads back from it. Next to it, the
  decoder on texts that no method wrote: spaces where the grammar allows them and
  upper-case digits are read; a raw line feed inside a string, text after the object and
  a comma before the closing brace are refused.
\<close>

theorem decode_after_encode_witness:
  \<open>list_all unicode_scalar [0x22, 0x5C, 0xE9, 0x1F600] \<and>
   json_dumps (VDict [(VStr (ascii ''message''), VStr [0x22, 0x5C, 0xE9, 0x1F600])]) =
     Inr (ascii ''{"message": "'' @ [0x5C, 0x22, 0x5C, 0x5C, 0x5C] @ ascii ''u00e9''
            @ [0x5C] @ ascii ''ud83d'' @ [0x5C] @ ascii ''ude00"}'') \<and>
   json_loads (ascii ''{"message": "'' @ [0x5C, 0x22, 0x5C, 0x5C, 0x5C] @ ascii ''u00e9''
                 @ [0x5C] @ ascii ''ud83d'' @ [0x5C] @ ascii ''ude00"}'') =
     Some [(ascii ''message'', [0x22, 0x5C, 0xE9, 0x1F600])] \<and>
   json_loads (ascii '' { "a" :"b/'' @ [0x5C] @ ascii ''u00E9" , "c":"" } '') =
     Some [(ascii ''a'', ascii ''b/'' @ [0xE9]), (ascii ''c'', [])] \<and>
   json_loads (ascii ''{}'') = Some [] \<and>
   json_loads (ascii ''{"a": "b'' @ [0x0A] @ ascii ''"}'') = None \<and>
   json_loads (ascii ''{"a": "b"} x'') = None \<and>
   json_loads (ascii ''{"a": "b",}'') = None\<close>
proof -
  have a: "list_all unicode_scalar [0x22, 0x5C, 0xE9, 0x1F600]"
    and b: "list_all unicode_scalar []"
    by (simp_all add: unicode_scalar_def)
  have d: \<open>json_dumps (VDict [(VStr (ascii ''message''), VStr [0x22, 0x5C, 0xE9, 0x1F600])]) =
     Inr (ascii ''{"message": "'' @ [0x5C, 0x22, 0x5C, 0x5C, 0x5C] @ ascii ''u00e9''
            @ [0x5C] @ ascii ''ud83d'' @ [0x5C] @ ascii ''ude00"}'')\<close>
    by (simp add: json_dumps_def encode_basestring_ascii_def escape_ascii_def replace_def
        hex4_def hexdigit_def ascii_def)
  have l: \<open>json_loads (ascii ''{"message": "'' @ [0x5C, 0x22, 0x5C, 0x5C, 0x5C] @ ascii ''u00e9''
                 @ [0x5C] @ ascii ''ud83d'' @ [0x5C] @ ascii ''ude00"}'') =
     Some [(ascii ''message'', [0x22, 0x5C, 0xE9, 0x1F600])]\<close>
    using d decode_after_encode [OF b b b b b a, of core_instance bus_up cloudconnect_instance]
    by simp
  have e: \<open>json_loads (ascii '' { "a" :"b/'' @ [0x5C] @ ascii ''u00E9" , "c":"" } '') =
       Some [(ascii ''a'', ascii ''b/'' @ [0xE9]), (ascii ''c'', [])]\<close>
    \<open>json_loads (ascii ''{}'') = Some []\<close>
    \<open>json_loads (ascii ''{"a": "b'' @ [0x0A] @ ascii ''"}'') = None\<close>
    \<open>json_loads (ascii ''{"a": "b"} x'') = None\<close>
    \<open>json_loads (ascii ''{"a": "b",}'') = None\<close>
    by (simp_all add: json_loads_def parse_members.simps parse_member_def parse_string_def
        expect_def skip_ws_def is_ws_def cons_chr_def unescape_def unhex_def ascii_def)
  show ?thesis
    using a d l e by (intro conjI)
qed

end
